theory Spec2Isabelle
  imports Main "HOL-Library.Word" "HOL-Library.Sublist"
begin

section \<open>JavaScript values of the frontend\<close>

text \<open>
  The frontend is TypeScript. A JavaScript string is a sequence of UTF-16 code units, so
  it is modelled as a list of 16-bit words. \<open>js\<close> embeds an ASCII literal.
\<close>

type_synonym code_unit = "16 word"
type_synonym jstring = "code_unit list"

definition js :: "string \<Rightarrow> jstring" where
  "js s = map (\<lambda>c. of_nat (of_char c)) s"

text \<open>
  \<open>String.prototype.trim\<close> (ECMAScript, TrimString) removes leading and trailing code
  units that are WhiteSpace or LineTerminator: TAB, LF, VT, FF, CR, SP, NBSP, U+1680,
  U+2000 to U+200A, U+2028, U+2029, U+202F, U+205F, U+3000 and U+FEFF.
\<close>

definition isWhiteSpace :: "code_unit \<Rightarrow> bool" where
  "isWhiteSpace c \<longleftrightarrow>
     c = 0x0009 \<or> c = 0x000A \<or> c = 0x000B \<or> c = 0x000C \<or> c = 0x000D \<or> c = 0x0020 \<or>
     c = 0x00A0 \<or> c = 0x1680 \<or> (0x2000 \<le> c \<and> c \<le> 0x200A) \<or>
     c = 0x2028 \<or> c = 0x2029 \<or> c = 0x202F \<or> c = 0x205F \<or> c = 0x3000 \<or> c = 0xFEFF"

definition trim :: "jstring \<Rightarrow> jstring" where
  "trim s = rev (dropWhile isWhiteSpace (rev (dropWhile isWhiteSpace s)))"

text \<open>
  A value of TypeScript type \<open>any\<close> that came out of a JSON response body, and
  \<open>undefined\<close>. A number is kept as the mantissa and the decimal exponent of its literal;
  only whether it is zero matters below (a literal so small that it rounds to zero as a
  double is not told apart).
\<close>

datatype js_value =
    JUndefined
  | JNull
  | JBool bool
  | JNumber int int
  | JString jstring
  | JArray "js_value list"
  | JObject "(jstring \<times> js_value) list"

text \<open>ToBoolean: the falsy values are undefined, null, false, zero and the empty string.\<close>

fun truthy :: "js_value \<Rightarrow> bool" where
  "truthy JUndefined = False"
| "truthy JNull = False"
| "truthy (JBool b) = b"
| "truthy (JNumber m e) = (m \<noteq> 0)"
| "truthy (JString s) = (s \<noteq> [])"
| "truthy (JArray xs) = True"
| "truthy (JObject kvs) = True"

section \<open>components/ArticleForm.tsx\<close>

text \<open>The two pieces of component state, \<open>useState('')\<close> each.\<close>

record article_form =
  query :: jstring
  url :: jstring

record form_event =
  defaultPrevented :: bool

text \<open>
  \<open>handleSubmit\<close>: \<open>e.preventDefault()\<close>, then \<open>onSubmit(query.trim(), url.trim() || undefined)\<close>
  if \<open>query.trim()\<close> is truthy (a non-empty string). The result is the event and the value of
  the call of the \<open>onSubmit\<close> prop, \<open>None\<close> when the prop is not called.
\<close>

definition handleSubmit ::
  "(jstring \<Rightarrow> jstring option \<Rightarrow> 'r) \<Rightarrow> form_event \<Rightarrow> article_form \<Rightarrow> form_event \<times> 'r option" where
  "handleSubmit onSubmit e f =
     (e\<lparr>defaultPrevented := True\<rparr>,
      if trim (query f) \<noteq> []
      then Some (onSubmit (trim (query f)) (if trim (url f) \<noteq> [] then Some (trim (url f)) else None))
      else None)"

text \<open>The submit button: \<open>disabled={loading || !query.trim()}\<close>.\<close>

definition submit_disabled :: "bool \<Rightarrow> article_form \<Rightarrow> bool" where
  "submit_disabled loading_prop f \<longleftrightarrow> loading_prop \<or> trim (query f) = []"

section \<open>app/dashboard/page.tsx\<close>

text \<open>The body of a successful response, and what the handlers read of a failed call.\<close>

record api_response =
  article_json :: js_value
  seo_metadata_json :: js_value
  html_content :: jstring

text \<open>
  \<open>err.response?.data?.detail\<close> of a rejected call: \<open>None\<close> when the chain yields
  \<open>undefined\<close>.
\<close>

record api_failure =
  detail :: "jstring option"

datatype api_outcome = Resolved api_response | Failed api_failure

datatype api_request =
    GenerateArticle jstring "jstring option"
  | RegenerateArticle js_value jstring

text \<open>\<open>detail || fallback\<close>: the fallback when the detail is undefined or empty.\<close>

definition detail_or :: "api_failure \<Rightarrow> jstring \<Rightarrow> jstring" where
  "detail_or err fallback =
     (case detail err of None \<Rightarrow> fallback | Some d \<Rightarrow> if d \<noteq> [] then d else fallback)"

record dashboard =
  articleData :: js_value
  seoMetadata :: js_value
  htmlContent :: jstring
  loading :: bool
  error :: jstring
  regeneratePrompt :: jstring
  regenerating :: bool

text \<open>
  The handlers are asynchronous: they update the state, issue one request, and finish when
  the request settles. The outcome of the awaited call is a parameter; the result is the
  state once the handler has finished and the requests it issued, in order.
\<close>

definition handleGenerate ::
  "api_outcome \<Rightarrow> jstring \<Rightarrow> jstring option \<Rightarrow> dashboard \<Rightarrow> dashboard \<times> api_request list" where
  "handleGenerate outcome q u st =
     (let st1 = st\<lparr>loading := True, error := [], articleData := JNull, seoMetadata := JNull,
                    htmlContent := []\<rparr>;
          st2 = (case outcome of
                   Resolved r \<Rightarrow> st1\<lparr>articleData := article_json r,
                                        seoMetadata := seo_metadata_json r,
                                        htmlContent := html_content r\<rparr>
                 | Failed err \<Rightarrow>
                     st1\<lparr>error := detail_or err (js ''Failed to generate article. Please try again.'')\<rparr>)
      in (st2\<lparr>loading := False\<rparr>, [GenerateArticle q u]))"

definition handleRegenerate :: "api_outcome \<Rightarrow> dashboard \<Rightarrow> dashboard \<times> api_request list" where
  "handleRegenerate outcome st =
     (if \<not> truthy (articleData st) \<or> trim (regeneratePrompt st) = [] then (st, [])
      else
        let st1 = st\<lparr>regenerating := True, error := []\<rparr>;
            st2 = (case outcome of
                     Resolved r \<Rightarrow> st1\<lparr>articleData := article_json r,
                                          seoMetadata := seo_metadata_json r,
                                          htmlContent := html_content r,
                                          regeneratePrompt := []\<rparr>
                   | Failed err \<Rightarrow>
                       st1\<lparr>error := detail_or err (js ''Failed to regenerate article. Please try again.'')\<rparr>)
        in (st2\<lparr>regenerating := False\<rparr>,
            [RegenerateArticle (articleData st) (trim (regeneratePrompt st))]))"

text \<open>The regenerate button: \<open>disabled={regenerating || !regeneratePrompt.trim()}\<close>.\<close>

definition regenerate_disabled :: "dashboard \<Rightarrow> bool" where
  "regenerate_disabled st \<longleftrightarrow> regenerating st \<or> trim (regeneratePrompt st) = []"

text \<open>
  The dashboard renders \<open><ArticleForm onSubmit={handleGenerate} loading={loading} />\<close>:
  a submit event of the form runs \<open>handleSubmit\<close> with \<open>handleGenerate\<close> as the prop. The
  requests of a submission are those of the call of the prop, none when it is not called.
\<close>

definition submit_requests :: "api_outcome \<Rightarrow> form_event \<Rightarrow> article_form \<Rightarrow> dashboard \<Rightarrow> api_request list" where
  "submit_requests outcome e f st =
     (case snd (handleSubmit (handleGenerate outcome) e f) of
        None \<Rightarrow> []
      | Some run \<Rightarrow> snd (run st))"

section \<open>lib/api.ts\<close>

text \<open>
  An HTTP response as axios hands it over, and the error axios rejects with:
  \<open>error.response\<close> is undefined (\<open>None\<close>) when no response arrived.
\<close>

record http_response =
  status :: int
  data :: js_value

record axios_error =
  response :: "http_response option"

datatype settled = Fulfilled http_response | Rejected axios_error

text \<open>
  What the interceptor can change: the stored token, and the address of the window.
  \<open>window_href\<close> is \<open>None\<close> where \<open>typeof window\<close> is \<open>'undefined'\<close> (rendering on the server).
\<close>

record browser =
  auth_token :: "jstring option"
  window_href :: "jstring option"

text \<open>
  Modelled from the spec: \<open>removeAuthToken\<close> of \<open>lib/auth.ts\<close>, which is not among the
  sources. The code guide says of that file that it stores the JWT in localStorage and that
  its remove function removes the JWT from localStorage.
\<close>

definition removeAuthToken :: "browser \<Rightarrow> browser" where
  "removeAuthToken b = b\<lparr>auth_token := None\<rparr>"

text \<open>
  \<open>apiClient.interceptors.response.use(onFulfilled, onRejected)\<close>: the first handler
  returns the response; the second, on \<open>error.response?.status === 401\<close>, calls
  \<open>removeAuthToken()\<close> and, if there is a window, assigns \<open>'/'\<close> to
  \<open>window.location.href\<close>; it always returns \<open>Promise.reject(error)\<close>.
\<close>

definition response_onFulfilled :: "http_response \<Rightarrow> browser \<Rightarrow> settled \<times> browser" where
  "response_onFulfilled r b = (Fulfilled r, b)"

definition response_onRejected :: "axios_error \<Rightarrow> browser \<Rightarrow> settled \<times> browser" where
  "response_onRejected err b =
     (Rejected err,
      if (case response err of None \<Rightarrow> False | Some r \<Rightarrow> status r = 401)
      then (let b1 = removeAuthToken b
            in if window_href b1 \<noteq> None then b1\<lparr>window_href := Some (js ''/'')\<rparr> else b1)
      else b)"

definition response_interceptor :: "settled \<Rightarrow> browser \<Rightarrow> settled \<times> browser" where
  "response_interceptor p b =
     (case p of Fulfilled r \<Rightarrow> response_onFulfilled r b | Rejected err \<Rightarrow> response_onRejected err b)"

text \<open>
  axios settles a response by its default \<open>validateStatus\<close> (the client is created with a
  base URL and a header only): a status from 200 to 299 fulfils the promise, any other
  rejects it with an error that carries the response.
\<close>

definition settle :: "http_response \<Rightarrow> settled" where
  "settle r = (if 200 \<le> status r \<and> status r < 300 then Fulfilled r
               else Rejected \<lparr>response = Some r\<rparr>)"

section \<open>The generation pipeline of the backend\<close>

text \<open>
  The Python services of the backend (\<open>services/llm_service.py\<close> and
  \<open>services/article_service.py\<close>) are not among the sources: only the code guide names
  their functions. The parser and the orchestrator below follow the specification, sections
  3, 4.2, 4.3, 6 and 7. Backend text is a \<open>string\<close>.
\<close>

text \<open>Modelled from the spec: a source entry \<open>{title, url, description}\<close> of section 3.\<close>

record source =
  source_title :: string
  source_url :: string
  source_description :: string

text \<open>Modelled from the spec: a section \<open>{heading, body, subpoints}\<close> of section 3.\<close>

record article_section =
  heading :: string
  body :: string
  subpoints :: "string list"

text \<open>
  Modelled from the spec: the Article of section 3, which the absent
  \<open>generate_article\<close> returns: title, sections, sources, the originating query and the
  optional reference URL.
\<close>

record article =
  title :: string
  sections :: "article_section list"
  sources :: "source list"
  originating_query :: string
  referenceUrl :: "string option"

text \<open>
  Modelled from the spec: the Article invariants of section 3, a non-empty title and at
  least one section.
\<close>

definition valid_article :: "article \<Rightarrow> bool" where
  "valid_article a \<longleftrightarrow> title a \<noteq> [] \<and> sections a \<noteq> []"

text \<open>
  Modelled from the spec: the SEOMetadata of section 3, with \<open>openGraph\<close> as
  \<open>(title, description, type)\<close> and \<open>twitterCard\<close> as \<open>(title, description, cardType)\<close>.
\<close>

record seo_metadata =
  seo_title :: string
  seo_description :: string
  seo_keywords :: "string list"
  openGraph :: "string \<times> string \<times> string"
  twitterCard :: "string \<times> string \<times> string"

text \<open>
  Modelled from the spec: the error kinds of section 7. A parse failure names the stage that
  failed (section 4.3, step 4): no balanced brace span was found, or the span did not parse.
\<close>

datatype parse_stage = BraceSpanSearch | BraceSpanParse

datatype failure =
    ServiceUnavailable
  | ServiceTimeout
  | ParseFailure parse_stage
  | ValidationFailure
  | RenderFailure

text \<open>
  Modelled from the spec: white space around the payload of the absent parser. The payload
  is JSON, whose white space is space, tab, line feed and carriage return.
\<close>

definition is_space :: "char \<Rightarrow> bool" where
  "is_space c \<longleftrightarrow> c = CHR '' '' \<or> c = CHR 0x09 \<or> c = CHR 0x0A \<or> c = CHR 0x0D"

text \<open>Modelled from the spec: removal of the white space on both sides of a text.\<close>

definition strip_space :: "string \<Rightarrow> string" where
  "strip_space s = rev (dropWhile is_space (rev (dropWhile is_space s)))"

text \<open>Modelled from the spec: the closing code-fence marker of section 4.3, step 1.\<close>

definition fence :: string where
  "fence = ''```''"

text \<open>
  Modelled from the spec: one wrapping pair of markers of section 4.3, step 1. A text that
  starts with the opening marker and ends, after it, with the closing marker gives what
  stands between the two.
\<close>

definition unfence :: "string \<Rightarrow> string \<Rightarrow> string option" where
  "unfence opener t =
     (if prefix opener t \<and> suffix fence (drop (length opener) t)
      then Some (take (length t - length opener - length fence) (drop (length opener) t))
      else None)"

text \<open>
  Modelled from the spec: step 1 of the Structured Response Parser (section 4.3), "strip any
  wrapping code-fence markers (```json ... ``` or ``` ... ```) around the payload". The
  payload is what stands between the markers without the white space around it.
\<close>

definition strip_fences :: "string \<Rightarrow> string" where
  "strip_fences raw =
     (let t = strip_space raw
      in case unfence (fence @ ''json'') t of
           Some p \<Rightarrow> strip_space p
         | None \<Rightarrow> (case unfence fence t of Some p \<Rightarrow> strip_space p | None \<Rightarrow> t))"

text \<open>
  Modelled from the spec: the scan behind "the first balanced curly-brace span" of section
  4.3, step 3. \<open>span_end d cs\<close> reads \<open>cs\<close> with \<open>d\<close> braces open and gives the text up to
  the brace that closes the outermost one, \<open>None\<close> if the text ends first.
\<close>

fun span_end :: "nat \<Rightarrow> string \<Rightarrow> string option" where
  "span_end d [] = None"
| "span_end d (c # cs) =
     (if c = CHR ''{'' then map_option ((#) c) (span_end (Suc d) cs)
      else if c = CHR ''}'' then
        (if d \<le> 1 then Some [c] else map_option ((#) c) (span_end (d - 1) cs))
      else map_option ((#) c) (span_end d cs))"

text \<open>
  Modelled from the spec: "locate the first balanced curly-brace span in the text" (section
  4.3, step 3): the span of the first opening brace that has a closing brace, from that
  brace to the brace that closes it. An opening brace that is never closed starts no span.
\<close>

fun first_brace_span :: "string \<Rightarrow> string option" where
  "first_brace_span [] = None"
| "first_brace_span (c # cs) =
     (if c = CHR ''{'' then
        (case span_end 1 cs of Some s \<Rightarrow> Some (c # s) | None \<Rightarrow> first_brace_span cs)
      else first_brace_span cs)"





text \<open>
  Modelled from the spec: step 3 and step 4 of the parser (section 4.3). The structural
  parse of a text as the Article shape is the JSON decoding of the platform; it is the
  parameter \<open>decode\<close>, \<open>None\<close> where the text does not parse.
\<close>

definition recover_span :: "(string \<Rightarrow> article option) \<Rightarrow> string \<Rightarrow> failure + article" where
  "recover_span decode t =
     (case first_brace_span t of
        None \<Rightarrow> Inl (ParseFailure BraceSpanSearch)
      | Some s \<Rightarrow>
          (case decode s of
             None \<Rightarrow> Inl (ParseFailure BraceSpanParse)
           | Some a \<Rightarrow> if valid_article a then Inr a else Inl ValidationFailure))"

text \<open>
  Modelled from the spec: the Structured Response Parser of section 4.3 on a raw text, the
  absent JSON parsing of \<open>llm_service.py\<close>: strip the fences, accept the direct parse if it
  parses and satisfies the invariants, else recover from the first balanced brace span,
  else fail.
\<close>

definition parse_article :: "(string \<Rightarrow> article option) \<Rightarrow> string \<Rightarrow> failure + article" where
  "parse_article decode raw =
     (let t = strip_fences raw
      in case decode t of
           None \<Rightarrow> recover_span decode t
         | Some a \<Rightarrow> if valid_article a then Inr a else recover_span decode t)"

text \<open>
  Modelled from the spec: "deduplicated by URL" (section 4.3): the first entry of each URL
  stays.
\<close>

fun dedup_by_url :: "source list \<Rightarrow> source list" where
  "dedup_by_url [] = []"
| "dedup_by_url (s # ss) = s # dedup_by_url (filter (\<lambda>x. source_url x \<noteq> source_url s) ss)"

text \<open>
  Modelled from the spec: the parser on a service response (section 4.3, last sentence):
  when the response carries citations, they are merged into the sources of the Article.
\<close>

definition parse_response ::
  "(string \<Rightarrow> article option) \<Rightarrow> string \<Rightarrow> source list \<Rightarrow> failure + article" where
  "parse_response decode raw cites =
     (case parse_article decode raw of
        Inl e \<Rightarrow> Inl e
      | Inr a \<Rightarrow> Inr (if cites = [] then a else a\<lparr>sources := dedup_by_url (sources a @ cites)\<rparr>))"

text \<open>Modelled from the spec: the request and the response of the service (section 6).\<close>

record service_request =
  prompt :: string
  contextUrl :: "string option"
  groundingEnabled :: bool

text \<open>Modelled from the spec: the response \<open>{text, citations}\<close> of section 6.\<close>

record service_response =
  response_text :: string
  citations :: "source list"

text \<open>
  Modelled from the spec: what a call of the Generative Service Client ends in (section 6):
  a response, or one of its three failure modes.
\<close>

datatype service_outcome =
    Responded service_response
  | NetworkError
  | QuotaOrAuthError
  | TimedOut

text \<open>
  Modelled from the spec: the collaborators of the Generation Orchestrator (section 2): the
  Prompt Builder for fresh generation, the Generative Service Client, the grounding flag,
  the structural parse, the SEO Metadata Generator and the HTML Renderer. The service is any
  function of its request.
\<close>

record collaborators =
  generation_prompt :: "string \<Rightarrow> string option \<Rightarrow> string"
  service :: "service_request \<Rightarrow> service_outcome"
  grounding :: bool
  decode_article :: "string \<Rightarrow> article option"
  seo_generator :: "article \<Rightarrow> seo_metadata"
  html_renderer :: "article \<Rightarrow> seo_metadata \<Rightarrow> string"

text \<open>Modelled from the spec: the result \<open>{article, seoMetadata, html}\<close> of section 6.\<close>

record generated =
  generated_article :: article
  generated_seo :: seo_metadata
  generated_html :: string

text \<open>
  Modelled from the spec: \<open>generate(query, referenceUrl)\<close> of sections 4.2 and 6, the absent
  \<open>generate_article_with_metadata\<close>: one call of the service with the built prompt, one
  parse of its text, the failures of section 7 passed on, and the query and the reference
  URL carried in the Article.
\<close>

definition generate :: "collaborators \<Rightarrow> string \<Rightarrow> string option \<Rightarrow> failure + generated" where
  "generate env q ref =
     (case service env \<lparr>prompt = generation_prompt env q ref, contextUrl = ref,
                         groundingEnabled = grounding env\<rparr> of
        NetworkError \<Rightarrow> Inl ServiceUnavailable
      | QuotaOrAuthError \<Rightarrow> Inl ServiceUnavailable
      | TimedOut \<Rightarrow> Inl ServiceTimeout
      | Responded r \<Rightarrow>
          (case parse_response (decode_article env) (response_text r) (citations r) of
             Inl e \<Rightarrow> Inl e
           | Inr a \<Rightarrow>
               (let a' = a\<lparr>originating_query := q, referenceUrl := ref\<rparr>;
                    seo = seo_generator env a'
                in Inr \<lparr>generated_article = a', generated_seo = seo,
                        generated_html = html_renderer env a' seo\<rparr>)))"

section \<open>Example data\<close>

text \<open>The error axios makes of a response with status 401.\<close>

definition axios_401 :: axios_error where
  "axios_401 = \<lparr>response = Some \<lparr>status = 401, data = JNull\<rparr>\<rparr>"

text \<open>
  The examples of section 8 of the specification need a serialized Article and a decoder.
  \<open>example_decode\<close> stands in for the JSON decoding on these examples: it knows the one
  text \<open>example_json\<close>. \<open>example_env\<close> is a set of collaborators whose service answers
  every request with the given text and no citations.
\<close>

definition example_article :: article where
  "example_article =
     \<lparr>title = ''T'', sections = [\<lparr>heading = ''H'', body = ''B'', subpoints = []\<rparr>],
      sources = [], originating_query = [], referenceUrl = None\<rparr>"

definition example_json :: string where
  "example_json = ''{\"title\":\"T\",\"sections\":[{\"heading\":\"H\",\"body\":\"B\"}]}''"

definition example_decode :: "string \<Rightarrow> article option" where
  "example_decode t = (if t = example_json then Some example_article else None)"

definition example_env :: "string \<Rightarrow> collaborators" where
  "example_env answer =
     \<lparr>generation_prompt = (\<lambda>q ref. q),
      service = (\<lambda>req. Responded \<lparr>response_text = answer, citations = []\<rparr>),
      grounding = False,
      decode_article = example_decode,
      seo_generator = (\<lambda>a. \<lparr>seo_title = title a, seo_description = title a, seo_keywords = [],
                               openGraph = (title a, title a, ''article''),
                               twitterCard = (title a, title a, ''summary'')\<rparr>),
      html_renderer = (\<lambda>a seo. ''<h1>'' @ title a @ ''</h1>'')\<rparr>"




section \<open>Trimming\<close>

lemma dropWhile_all_iff: "(\<forall>c\<in>set (dropWhile P s). P c) \<longleftrightarrow> (\<forall>c\<in>set s. P c)"
proof -
  have split: "set s = set (takeWhile P s) \<union> set (dropWhile P s)"
    by (metis set_append takeWhile_dropWhile_id)
  have front: "\<forall>c\<in>set (takeWhile P s). P c"
    by (auto dest: set_takeWhileD)
  show ?thesis
  proof
    assume "\<forall>c\<in>set (dropWhile P s). P c"
    with front split show "\<forall>c\<in>set s. P c"
      by blast
  next
    assume "\<forall>c\<in>set s. P c"
    with split show "\<forall>c\<in>set (dropWhile P s). P c"
      by blast
  qed
qed

lemma trim_empty_iff: "trim s = [] \<longleftrightarrow> (\<forall>c\<in>set s. isWhiteSpace c)"
proof -
  have "trim s = [] \<longleftrightarrow> (\<forall>c\<in>set (dropWhile isWhiteSpace s). isWhiteSpace c)"
    by (simp add: trim_def)
  then show ?thesis
    by (simp add: dropWhile_all_iff)
qed

lemma trim_Nil: "trim [] = []"
  by (simp add: trim_def)

lemma trim_last: "trim s \<noteq> [] \<Longrightarrow> \<not> isWhiteSpace (last (trim s))"
proof -
  assume ne: "trim s \<noteq> []"
  define v where "v = dropWhile isWhiteSpace (rev (dropWhile isWhiteSpace s))"
  have t: "trim s = rev v"
    by (simp add: trim_def v_def)
  with ne have "v \<noteq> []"
    by simp
  then have "\<not> isWhiteSpace (hd v)"
    unfolding v_def by (rule hd_dropWhile)
  moreover have "last (rev v) = hd v"
    using \<open>v \<noteq> []\<close> by (simp add: last_rev)
  ultimately show ?thesis
    using t by simp
qed

lemma trim_nonblank: "trim s \<noteq> [] \<Longrightarrow> \<exists>c\<in>set (trim s). \<not> isWhiteSpace c"
  using trim_last [of s] last_in_set [of "trim s"] by blast

section \<open>The article form and the dashboard handlers\<close>

lemma handleSubmit_call:
  "snd (handleSubmit onSubmit e f) =
     (if trim (query f) = [] then None
      else Some (onSubmit (trim (query f)) (if trim (url f) \<noteq> [] then Some (trim (url f)) else None)))"
  by (simp add: handleSubmit_def)

lemma handleGenerate_requests: "snd (handleGenerate outcome q u st) = [GenerateArticle q u]"
  by (simp add: handleGenerate_def Let_def)

lemma submit_requests_eq:
  "submit_requests outcome e f st =
     (if trim (query f) = [] then []
      else [GenerateArticle (trim (query f)) (if trim (url f) \<noteq> [] then Some (trim (url f)) else None)])"
  by (simp add: submit_requests_def handleSubmit_call handleGenerate_requests)

text \<open>
  C8. A submission whose query is empty or holds only white space calls nothing: the
  \<open>onSubmit\<close> prop is not called, the dashboard issues no request, and the submit button is
  disabled. Whenever the prop is called, and whenever the dashboard issues a generate
  request, the query passed is the trimmed query, it is not empty and it holds a code unit
  that is not white space.
\<close>

theorem empty_query_rejected_upstream:
  fixes onSubmit :: "jstring \<Rightarrow> jstring option \<Rightarrow> 'r"
  shows "(query f = [] \<or> (\<forall>c\<in>set (query f). isWhiteSpace c) \<longrightarrow>
            snd (handleSubmit onSubmit e f) = None \<and>
            submit_disabled loading_prop f \<and>
            submit_requests outcome e f st = [])
       \<and> (\<forall>v. snd (handleSubmit onSubmit e f) = Some v \<longrightarrow>
            trim (query f) \<noteq> [] \<and>
            v = onSubmit (trim (query f)) (if trim (url f) \<noteq> [] then Some (trim (url f)) else None))
       \<and> (\<forall>r\<in>set (submit_requests outcome e f st).
            \<exists>q u. r = GenerateArticle q u \<and> q = trim (query f) \<and> q \<noteq> [] \<and>
                  (\<exists>c\<in>set q. \<not> isWhiteSpace c))"
proof -
  have blank: "query f = [] \<or> (\<forall>c\<in>set (query f). isWhiteSpace c) \<Longrightarrow> trim (query f) = []"
    by (auto simp: trim_empty_iff)
  have nonblank: "trim (query f) \<noteq> [] \<Longrightarrow> \<exists>c\<in>set (trim (query f)). \<not> isWhiteSpace c"
    by (rule trim_nonblank)
  show ?thesis
    using blank nonblank
    by (auto simp: handleSubmit_call submit_requests_eq submit_disabled_def split: if_splits)
qed

theorem empty_query_rejected_upstream_witness:
  "list_all isWhiteSpace (query \<lparr>query = js '' '', url = []\<rparr>)
   \<and> snd (handleSubmit Pair \<lparr>defaultPrevented = False\<rparr> \<lparr>query = js '' '', url = []\<rparr>) = None
   \<and> submit_disabled False \<lparr>query = js '' '', url = []\<rparr>
   \<and> submit_requests (Failed \<lparr>detail = None\<rparr>) \<lparr>defaultPrevented = False\<rparr>
         \<lparr>query = js '' '', url = []\<rparr>
         \<lparr>articleData = JNull, seoMetadata = JNull, htmlContent = [], loading = False,
          error = [], regeneratePrompt = [], regenerating = False\<rparr> = []
   \<and> snd (handleSubmit Pair \<lparr>defaultPrevented = False\<rparr> \<lparr>query = js '' AI '', url = js '' ''\<rparr>)
       = Some (js ''AI'', None)
   \<and> submit_requests (Failed \<lparr>detail = None\<rparr>) \<lparr>defaultPrevented = False\<rparr>
         \<lparr>query = js '' AI '', url = js '' ''\<rparr>
         \<lparr>articleData = JNull, seoMetadata = JNull, htmlContent = [], loading = False,
          error = [], regeneratePrompt = [], regenerating = False\<rparr>
       = [GenerateArticle (js ''AI'') None]"
  using empty_query_rejected_upstream
          [of "\<lparr>query = js '' '', url = []\<rparr>" Pair "\<lparr>defaultPrevented = False\<rparr>" False
              "Failed \<lparr>detail = None\<rparr>"
              "\<lparr>articleData = JNull, seoMetadata = JNull, htmlContent = [], loading = False,
                error = [], regeneratePrompt = [], regenerating = False\<rparr>"]
        empty_query_rejected_upstream
          [of "\<lparr>query = js '' AI '', url = js '' ''\<rparr>" Pair "\<lparr>defaultPrevented = False\<rparr>" False
              "Failed \<lparr>detail = None\<rparr>"
              "\<lparr>articleData = JNull, seoMetadata = JNull, htmlContent = [], loading = False,
                error = [], regeneratePrompt = [], regenerating = False\<rparr>"]
  by (simp add: js_def isWhiteSpace_def trim_def handleSubmit_def submit_requests_def
        handleGenerate_def)

text \<open>
  C10. When no article is loaded (\<open>articleData\<close> is null, or any other falsy value) or the
  prompt is blank after trimming, \<open>handleRegenerate\<close> issues no request and leaves the whole
  state as it was, whatever the service would have answered.
\<close>

theorem regenerate_guard_noop:
  assumes "articleData st = JNull \<or> \<not> truthy (articleData st) \<or> trim (regeneratePrompt st) = []"
  shows "handleRegenerate outcome st = (st, [])"
  using assms by (auto simp: handleRegenerate_def)

theorem regenerate_guard_noop_witness:
  "articleData \<lparr>articleData = JNull, seoMetadata = JNull, htmlContent = [], loading = False,
      error = [], regeneratePrompt = js ''shorter'', regenerating = False\<rparr> = JNull
   \<and> handleRegenerate (Resolved \<lparr>article_json = JObject [], seo_metadata_json = JObject [],
                                   html_content = js ''<p></p>''\<rparr>)
        \<lparr>articleData = JNull, seoMetadata = JNull, htmlContent = [], loading = False,
         error = [], regeneratePrompt = js ''shorter'', regenerating = False\<rparr>
      = (\<lparr>articleData = JNull, seoMetadata = JNull, htmlContent = [], loading = False,
          error = [], regeneratePrompt = js ''shorter'', regenerating = False\<rparr>, [])
   \<and> trim (regeneratePrompt \<lparr>articleData = JObject [], seoMetadata = JObject [],
        htmlContent = js ''<p></p>'', loading = False, error = js ''old'',
        regeneratePrompt = js ''  '', regenerating = False\<rparr>) = []
   \<and> handleRegenerate (Failed \<lparr>detail = Some (js ''boom'')\<rparr>)
        \<lparr>articleData = JObject [], seoMetadata = JObject [], htmlContent = js ''<p></p>'',
         loading = False, error = js ''old'', regeneratePrompt = js ''  '', regenerating = False\<rparr>
      = (\<lparr>articleData = JObject [], seoMetadata = JObject [], htmlContent = js ''<p></p>'',
          loading = False, error = js ''old'', regeneratePrompt = js ''  '',
          regenerating = False\<rparr>, [])"
proof -
  have blank: "trim (js ''  '') = []"
    by (simp add: js_def isWhiteSpace_def trim_def)
  show ?thesis
    using regenerate_guard_noop
            [of "\<lparr>articleData = JNull, seoMetadata = JNull, htmlContent = [], loading = False,
                  error = [], regeneratePrompt = js ''shorter'', regenerating = False\<rparr>"
                "Resolved \<lparr>article_json = JObject [], seo_metadata_json = JObject [],
                   html_content = js ''<p></p>''\<rparr>"]
          regenerate_guard_noop
            [of "\<lparr>articleData = JObject [], seoMetadata = JObject [],
                  htmlContent = js ''<p></p>'', loading = False, error = js ''old'',
                  regeneratePrompt = js ''  '', regenerating = False\<rparr>"
                "Failed \<lparr>detail = Some (js ''boom'')\<rparr>"]
    by (simp add: blank)
qed

section \<open>The response interceptor\<close>

text \<open>
  C9. A response with status 401 reaches the second handler: the token is removed, the
  window (if there is one) is sent to \<open>'/'\<close>, and the promise is rejected with the error
  axios made. A response with any other status, and an error with no response, leave the
  interceptor as they entered it, with the token and the address untouched.
\<close>

theorem unauthorized_response_logs_out:
  "(status r = 401 \<longrightarrow>
      response_interceptor (settle r) b =
        (Rejected \<lparr>response = Some r\<rparr>,
         b\<lparr>auth_token := None, window_href := map_option (\<lambda>_. js ''/'') (window_href b)\<rparr>))
   \<and> (status r \<noteq> 401 \<longrightarrow> response_interceptor (settle r) b = (settle r, b))
   \<and> ((\<exists>r'. response err = Some r' \<and> status r' = 401) \<longrightarrow>
        response_onRejected err b =
          (Rejected err,
           b\<lparr>auth_token := None, window_href := map_option (\<lambda>_. js ''/'') (window_href b)\<rparr>))
   \<and> ((\<forall>r'. response err = Some r' \<longrightarrow> status r' \<noteq> 401) \<longrightarrow>
        response_onRejected err b = (Rejected err, b))
   \<and> response_onFulfilled r b = (Fulfilled r, b)"
  by (cases "window_href b")
     (auto simp: response_interceptor_def settle_def response_onRejected_def
        response_onFulfilled_def removeAuthToken_def Let_def split: option.splits)

theorem unauthorized_response_logs_out_witness:
  "status \<lparr>status = 401, data = JNull\<rparr> = 401
   \<and> response_interceptor (settle \<lparr>status = 401, data = JNull\<rparr>)
        \<lparr>auth_token = Some (js ''jwt''), window_href = Some (js ''/dashboard'')\<rparr>
      = (Rejected \<lparr>response = Some \<lparr>status = 401, data = JNull\<rparr>\<rparr>,
         \<lparr>auth_token = None, window_href = Some (js ''/'')\<rparr>)
   \<and> response axios_401 = Some \<lparr>status = 401, data = JNull\<rparr>
   \<and> response_onRejected axios_401 \<lparr>auth_token = Some (js ''jwt''), window_href = None\<rparr>
      = (Rejected axios_401, \<lparr>auth_token = None, window_href = None\<rparr>)
   \<and> status \<lparr>status = 500, data = JNull\<rparr> \<noteq> 401
   \<and> response_interceptor (settle \<lparr>status = 500, data = JNull\<rparr>)
        \<lparr>auth_token = Some (js ''jwt''), window_href = Some (js ''/dashboard'')\<rparr>
      = (Rejected \<lparr>response = Some \<lparr>status = 500, data = JNull\<rparr>\<rparr>,
         \<lparr>auth_token = Some (js ''jwt''), window_href = Some (js ''/dashboard'')\<rparr>)
   \<and> response_interceptor (settle \<lparr>status = 200, data = JNull\<rparr>)
        \<lparr>auth_token = Some (js ''jwt''), window_href = Some (js ''/dashboard'')\<rparr>
      = (Fulfilled \<lparr>status = 200, data = JNull\<rparr>,
         \<lparr>auth_token = Some (js ''jwt''), window_href = Some (js ''/dashboard'')\<rparr>)
   \<and> response_onRejected \<lparr>response = None\<rparr>
        \<lparr>auth_token = Some (js ''jwt''), window_href = Some (js ''/dashboard'')\<rparr>
      = (Rejected \<lparr>response = None\<rparr>,
         \<lparr>auth_token = Some (js ''jwt''), window_href = Some (js ''/dashboard'')\<rparr>)"
  using unauthorized_response_logs_out
          [of "\<lparr>status = 401, data = JNull\<rparr>"
              "\<lparr>auth_token = Some (js ''jwt''), window_href = Some (js ''/dashboard'')\<rparr>"
              "\<lparr>response = None\<rparr>"]
        unauthorized_response_logs_out
          [of "\<lparr>status = 401, data = JNull\<rparr>"
              "\<lparr>auth_token = Some (js ''jwt''), window_href = None\<rparr>"
              axios_401]
        unauthorized_response_logs_out
          [of "\<lparr>status = 500, data = JNull\<rparr>"
              "\<lparr>auth_token = Some (js ''jwt''), window_href = Some (js ''/dashboard'')\<rparr>"
              "\<lparr>response = None\<rparr>"]
        unauthorized_response_logs_out
          [of "\<lparr>status = 200, data = JNull\<rparr>"
              "\<lparr>auth_token = Some (js ''jwt''), window_href = Some (js ''/dashboard'')\<rparr>"
              "\<lparr>response = None\<rparr>"]
  by (simp add: settle_def axios_401_def)

section \<open>The Structured Response Parser\<close>

subsection \<open>White space and fences\<close>















subsection \<open>The first balanced brace span\<close>

















subsection \<open>The parser on an object, fenced or embedded\<close>











lemma recover_span_Inr:
  "recover_span decode t = Inr a \<Longrightarrow>
     valid_article a \<and> (\<exists>s. first_brace_span t = Some s \<and> decode s = Some a)"
  by (auto simp: recover_span_def split: option.splits if_splits)

lemma parse_article_Inr:
  assumes "parse_article decode raw = Inr a"
  shows "valid_article a \<and>
         (decode (strip_fences raw) = Some a \<or>
          (\<exists>s. first_brace_span (strip_fences raw) = Some s \<and> decode s = Some a))"
proof (cases "decode (strip_fences raw)")
  case None
  then have "recover_span decode (strip_fences raw) = Inr a"
    using assms by (simp add: parse_article_def)
  then show ?thesis
    using recover_span_Inr by blast
next
  case (Some b)
  show ?thesis
  proof (cases "valid_article b")
    case True
    then have "a = b"
      using assms Some by (simp add: parse_article_def)
    then show ?thesis
      using True Some by simp
  next
    case False
    then have "recover_span decode (strip_fences raw) = Inr a"
      using assms Some by (simp add: parse_article_def)
    then show ?thesis
      using recover_span_Inr by blast
  qed
qed

lemma parse_response_Inr:
  assumes "parse_response decode raw cites = Inr b"
  shows "\<exists>a. parse_article decode raw = Inr a \<and> title b = title a \<and> sections b = sections a"
  using assms by (auto simp: parse_response_def split: sum.splits if_splits)

lemma parse_article_unrecoverable:
  assumes "decode (strip_fences raw) = None"
    and "\<forall>s. first_brace_span (strip_fences raw) = Some s \<longrightarrow> decode s = None"
  shows "\<exists>stage. parse_article decode raw = Inl (ParseFailure stage)"
  using assms by (auto simp: parse_article_def recover_span_def split: option.splits)

lemma generate_Inr:
  assumes "generate env q ref = Inr g"
  shows "\<exists>r b. service env \<lparr>prompt = generation_prompt env q ref, contextUrl = ref,
                             groundingEnabled = grounding env\<rparr> = Responded r
           \<and> parse_response (decode_article env) (response_text r) (citations r) = Inr b
           \<and> generated_article g = b\<lparr>originating_query := q, referenceUrl := ref\<rparr>"
  using assms
  by (auto simp: generate_def Let_def split: service_outcome.splits sum.splits)




section \<open>The Generation Orchestrator\<close>

text \<open>
  C1. Whatever the query, the collaborators and the answer of the service, \<open>generate\<close>
  returns a failure value or a result whose Article satisfies the invariants; the title and
  the sections of that Article are those decoded from the response text or from its first
  balanced brace span, never made up. When the response text parses neither directly nor
  on its brace span, the result is a parse failure that names its stage.
\<close>

theorem generate_valid_or_failure:
  "(\<forall>g. generate env q ref = Inr g \<longrightarrow>
      valid_article (generated_article g)
      \<and> (\<exists>r a. service env \<lparr>prompt = generation_prompt env q ref, contextUrl = ref,
                               groundingEnabled = grounding env\<rparr> = Responded r
            \<and> (decode_article env (strip_fences (response_text r)) = Some a
               \<or> (\<exists>s. first_brace_span (strip_fences (response_text r)) = Some s
                      \<and> decode_article env s = Some a))
            \<and> title (generated_article g) = title a
            \<and> sections (generated_article g) = sections a))
   \<and> (\<forall>r. service env \<lparr>prompt = generation_prompt env q ref, contextUrl = ref,
                          groundingEnabled = grounding env\<rparr> = Responded r
          \<and> decode_article env (strip_fences (response_text r)) = None
          \<and> (\<forall>s. first_brace_span (strip_fences (response_text r)) = Some s
                \<longrightarrow> decode_article env s = None)
        \<longrightarrow> (\<exists>stage. generate env q ref = Inl (ParseFailure stage)))"
proof (intro conjI allI impI)
  fix g
  assume "generate env q ref = Inr g"
  then obtain r b where r: "service env \<lparr>prompt = generation_prompt env q ref, contextUrl = ref,
                             groundingEnabled = grounding env\<rparr> = Responded r"
    and b: "parse_response (decode_article env) (response_text r) (citations r) = Inr b"
    and g: "generated_article g = b\<lparr>originating_query := q, referenceUrl := ref\<rparr>"
    using generate_Inr by blast
  obtain a where a: "parse_article (decode_article env) (response_text r) = Inr a"
    and same: "title b = title a" "sections b = sections a"
    using parse_response_Inr [OF b] by blast
  note found = parse_article_Inr [OF a]
  show "valid_article (generated_article g)"
    using found same g by (simp add: valid_article_def)
  show "\<exists>r a. service env \<lparr>prompt = generation_prompt env q ref, contextUrl = ref,
                               groundingEnabled = grounding env\<rparr> = Responded r
            \<and> (decode_article env (strip_fences (response_text r)) = Some a
               \<or> (\<exists>s. first_brace_span (strip_fences (response_text r)) = Some s
                      \<and> decode_article env s = Some a))
            \<and> title (generated_article g) = title a
            \<and> sections (generated_article g) = sections a"
    using r found same g by (intro exI [of _ r] exI [of _ a]) simp
next
  fix r
  assume h: "service env \<lparr>prompt = generation_prompt env q ref, contextUrl = ref,
                          groundingEnabled = grounding env\<rparr> = Responded r
          \<and> decode_article env (strip_fences (response_text r)) = None
          \<and> (\<forall>s. first_brace_span (strip_fences (response_text r)) = Some s
                \<longrightarrow> decode_article env s = None)"
  then obtain stage where
    "parse_article (decode_article env) (response_text r) = Inl (ParseFailure stage)"
    using parse_article_unrecoverable by blast
  then have "generate env q ref = Inl (ParseFailure stage)"
    using h by (simp add: generate_def parse_response_def)
  then show "\<exists>stage. generate env q ref = Inl (ParseFailure stage)"
    by blast
qed

theorem generate_valid_or_failure_witness:
  "generate (example_env (''```json\<newline>'' @ example_json @ ''\<newline>```'')) ''topic'' None
     = Inr \<lparr>generated_article = example_article\<lparr>originating_query := ''topic''\<rparr>,
            generated_seo = \<lparr>seo_title = ''T'', seo_description = ''T'', seo_keywords = [],
                             openGraph = (''T'', ''T'', ''article''),
                             twitterCard = (''T'', ''T'', ''summary'')\<rparr>,
            generated_html = ''<h1>T</h1>''\<rparr>
   \<and> valid_article (example_article\<lparr>originating_query := ''topic''\<rparr>)
   \<and> service (example_env ''Sure: {not json}'')
        \<lparr>prompt = ''topic'', contextUrl = None, groundingEnabled = False\<rparr>
       = Responded \<lparr>response_text = ''Sure: {not json}'', citations = []\<rparr>
   \<and> example_decode (strip_fences ''Sure: {not json}'') = None
   \<and> first_brace_span (strip_fences ''Sure: {not json}'') = Some ''{not json}''
   \<and> example_decode ''{not json}'' = None
   \<and> generate (example_env ''Sure: {not json}'') ''topic'' None
     = Inl (ParseFailure BraceSpanParse)
   \<and> first_brace_span (strip_fences ''I cannot help with that.'') = None
   \<and> generate (example_env ''I cannot help with that.'') ''topic'' None
     = Inl (ParseFailure BraceSpanSearch)"
proof -
  have good: "generate (example_env (''```json\<newline>'' @ example_json @ ''\<newline>```'')) ''topic'' None
     = Inr \<lparr>generated_article = example_article\<lparr>originating_query := ''topic''\<rparr>,
            generated_seo = \<lparr>seo_title = ''T'', seo_description = ''T'', seo_keywords = [],
                             openGraph = (''T'', ''T'', ''article''),
                             twitterCard = (''T'', ''T'', ''summary'')\<rparr>,
            generated_html = ''<h1>T</h1>''\<rparr>"
    by code_simp
  have valid: "valid_article (example_article\<lparr>originating_query := ''topic''\<rparr>)"
    by (simp add: valid_article_def example_article_def)
  have answer: "service (example_env ''Sure: {not json}'')
        \<lparr>prompt = ''topic'', contextUrl = None, groundingEnabled = False\<rparr>
       = Responded \<lparr>response_text = ''Sure: {not json}'', citations = []\<rparr>"
    by (simp add: example_env_def)
  have direct: "example_decode (strip_fences ''Sure: {not json}'') = None"
    by code_simp
  have span: "first_brace_span (strip_fences ''Sure: {not json}'') = Some ''{not json}''"
    by code_simp
  have inner: "example_decode ''{not json}'' = None"
    by code_simp
  have bad: "generate (example_env ''Sure: {not json}'') ''topic'' None
     = Inl (ParseFailure BraceSpanParse)"
    by code_simp
  have no_span: "first_brace_span (strip_fences ''I cannot help with that.'') = None"
    by code_simp
  have worse: "generate (example_env ''I cannot help with that.'') ''topic'' None
     = Inl (ParseFailure BraceSpanSearch)"
    by code_simp
  show ?thesis
    using good valid answer direct span inner bad no_span worse
      generate_valid_or_failure
          [of "example_env (''```json\<newline>'' @ example_json @ ''\<newline>```'')" "''topic''" None]
      generate_valid_or_failure [of "example_env ''Sure: {not json}''" "''topic''" None]
    by simp
qed

end
